theory Spec2Isabelle
  imports Complex_Main
begin

section \<open>Time values of the Python runtime\<close>

text \<open>
  The program handles three kinds of time values.
  \<^item> A timezone-aware \<open>datetime\<close> in UTC has microsecond resolution; it is modelled by its
    number of microseconds since the Unix epoch (negative before 1970).
  \<^item> A \<open>timedelta\<close> is a signed number of microseconds.
  \<^item> The column \<open>points.time\<close> holds a plain integer: whole seconds since the epoch.

  Python floats (the results of \<open>datetime.timestamp()\<close>, \<open>timedelta.total_seconds()\<close> and
  of \<open>duration / 3\<close>) are modelled by the exact rational number they approximate. An IEEE
  double carries 53 bits, so the integral part of \<open>timestamp()\<close> is the exact one for
  every instant less than \<open>2 ^ 34\<close> seconds from the epoch (until the year 2514); from
  there on the double of an instant 0.999999 s after a whole second is the next whole
  second. This rounding of doubles, the year range 1..9999 of \<open>datetime\<close> and the 64-bit
  range of an SQLite integer are outside the model: its numbers are unbounded and exact.
\<close>

type_synonym datetime = int

type_synonym timedelta = int

definition timestamp :: "datetime \<Rightarrow> rat" where
  \<comment> \<open>\<open>datetime.timestamp()\<close> of an aware datetime: \<open>(self - EPOCH).total_seconds()\<close>\<close>
  "timestamp d = of_int d / 1000000"

definition total_seconds :: "timedelta \<Rightarrow> rat" where
  "total_seconds td = of_int td / 1000000"

definition py_int :: "rat \<Rightarrow> int" where
  \<comment> \<open>\<open>int(x)\<close> of a float: truncation towards zero\<close>
  "py_int x = (if 0 \<le> x then \<lfloor>x\<rfloor> else \<lceil>x\<rceil>)"

definition fromtimestamp :: "int \<Rightarrow> datetime" where
  \<comment> \<open>\<open>datetime.fromtimestamp(value, tz=timezone.utc)\<close> of an integer\<close>
  "fromtimestamp v = v * 1000000"

definition round_half_even :: "rat \<Rightarrow> int" where
  "round_half_even x =
     (let f = \<lfloor>x\<rfloor>; r = x - of_int f
      in if r < 1 / 2 then f
         else if 1 / 2 < r then f + 1
         else if even f then f else f + 1)"

definition timedelta_seconds :: "rat \<Rightarrow> timedelta" where
  \<comment> \<open>\<open>timedelta(seconds=x)\<close>: the value is rounded to the nearest microsecond, ties to even\<close>
  "timedelta_seconds x = round_half_even (x * 1000000)"

section \<open>The column type \<open>Timestamp\<close>\<close>

text \<open>
  \<open>Timestamp\<close> decorates an integer column. SQLAlchemy passes every Python value bound to
  a statement for this column through \<open>process_bind_param\<close>: the values of an INSERT, and
  also the operands compared with the column in a WHERE clause (a type decorator is the
  type of the plain Python values its column is compared with). Every value read from
  the column passes through \<open>process_result_value\<close>.
\<close>

definition process_bind_param :: "datetime \<Rightarrow> int" where
  "process_bind_param v = py_int (timestamp v)"

definition process_result_value :: "int \<Rightarrow> datetime" where
  "process_result_value v = fromtimestamp v"

section \<open>Points, rows and the session\<close>

text \<open>
  \<open>Point\<close> is the mapped class; \<open>point_id\<close> is its attribute \<open>id\<close>, which is \<open>None\<close> until
  the object has been inserted. A \<open>row\<close> is what the table \<open>points\<close> stores for it.
  A float temperature is modelled by the rational it denotes; it is stored and read back
  unchanged (an SQLite REAL is the same IEEE double).
\<close>

record Point =
  point_id :: "int option"
  time :: datetime
  temperature :: rat

record row =
  row_id :: int
  row_time :: int
  row_temperature :: rat

text \<open>
  A session holds the table, as the list of its rows in the order in which SQLite scans
  it (ascending \<open>id\<close>, the table's rowid), and the objects added but not yet flushed.
\<close>

record session =
  table :: "row list"
  pending :: "Point list"

definition init :: "row list \<Rightarrow> session" where
  \<comment> \<open>\<open>init(filename)\<close>: a fresh session on the table the file holds; creating the schema
      changes no row\<close>
  "init rows = \<lparr>table = rows, pending = []\<rparr>"

definition next_rowid :: "row list \<Rightarrow> int" where
  \<comment> \<open>SQLite's choice for an INTEGER PRIMARY KEY left unset: one more than the largest
      rowid in use, and 1 in an empty table\<close>
  "next_rowid rows =
     (case rows of [] \<Rightarrow> 1
      | r # rs \<Rightarrow> fold (\<lambda>x m. max (row_id x) m) rs (row_id r) + 1)"

definition insert_row :: "Point \<Rightarrow> row list \<Rightarrow> row list" where
  \<comment> \<open>INSERT INTO points (time, temperature) VALUES (?, ?)\<close>
  "insert_row p rows =
     rows @ [\<lparr>row_id = next_rowid rows,
              row_time = process_bind_param (time p),
              row_temperature = temperature p\<rparr>]"

definition add_all :: "Point list \<Rightarrow> session \<Rightarrow> session" where
  "add_all points s = s\<lparr>pending := pending s @ points\<rparr>"

definition commit :: "session \<Rightarrow> session" where
  \<comment> \<open>the flush inserts the pending objects in the order in which they were added\<close>
  "commit s = \<lparr>table = fold insert_row (pending s) (table s), pending = []\<rparr>"

section \<open>The generator\<close>

text \<open>
  \<open>generate\<close> always gives the time of a point, so the column default \<open>now\<close> is never
  used; its log messages carry no value and are left out. A commit that the database
  refuses is outside the model.
\<close>

definition py_range :: "int \<Rightarrow> int list" where
  "py_range n = [0..n - 1]"

definition generate :: "session \<Rightarrow> datetime \<Rightarrow> int \<Rightarrow> session" where
  \<comment> \<open>\<open>start_time\<close> is the value that \<open>datetime.now(tz=timezone.utc)\<close> returns\<close>
  "generate s start_time n_points =
     (let points =
            map (\<lambda>t. \<lparr>point_id = None,
                       time = start_time + timedelta_seconds (of_int t),
                       temperature = 41 / 2\<rparr>)
                (py_range n_points)
      in commit (add_all points s))"

section \<open>Queries\<close>

text \<open>
  A query on \<open>Point\<close> is modelled by the list of rows it selects, in the order in which
  the database returns them. Without ORDER BY, SQLite returns the rows of this table in
  scan order. With \<open>ORDER BY time DESC\<close> the model keeps rows of equal time in scan
  order; no theorem below depends on that choice.
\<close>

definition load :: "row \<Rightarrow> Point" where
  "load r = \<lparr>point_id = Some (row_id r),
             time = process_result_value (row_time r),
             temperature = row_temperature r\<rparr>"

definition query_Point :: "session \<Rightarrow> row list" where
  \<comment> \<open>\<open>session.query(Point)\<close>\<close>
  "query_Point s = table s"

definition order_by_time_desc :: "row list \<Rightarrow> row list" where
  \<comment> \<open>\<open>.order_by(Point.time.desc())\<close>\<close>
  "order_by_time_desc rows = sort_key (\<lambda>r. - row_time r) rows"

definition filter_between :: "datetime \<Rightarrow> datetime \<Rightarrow> row list \<Rightarrow> row list" where
  \<comment> \<open>\<open>.filter(Point.time.between(cleft, cright))\<close>: \<open>WHERE time BETWEEN ? AND ?\<close>, both
      operands bound through the column's type\<close>
  "filter_between cleft cright rows =
     filter (\<lambda>r. process_bind_param cleft \<le> row_time r
                \<and> row_time r \<le> process_bind_param cright) rows"

definition first :: "row list \<Rightarrow> Point option" where
  \<comment> \<open>\<open>.first()\<close>: LIMIT 1; \<open>None\<close> when no row is selected\<close>
  "first rows = (case rows of [] \<Rightarrow> None | r # _ \<Rightarrow> Some (load r))"

definition count :: "row list \<Rightarrow> nat" where
  \<comment> \<open>\<open>.count()\<close>\<close>
  "count rows = length rows"

section \<open>The query runner\<close>

datatype error = AttributeError

text \<open>The messages that \<open>query\<close> logs, each with the values it formats.\<close>

datatype log_record =
    FirstLast "Point option" "Point option"
  | TotalDuration rat
  | TotalNumber nat
  | NumberSelected nat
  | FirstSelected "Point option"

definition selection_left :: "Point \<Rightarrow> rat \<Rightarrow> datetime" where
  \<comment> \<open>\<open>first.time + timedelta(seconds=duration / 3)\<close>\<close>
  "selection_left fst_point duration = time fst_point + timedelta_seconds (duration / 3)"

definition selection_right :: "Point \<Rightarrow> rat \<Rightarrow> datetime" where
  \<comment> \<open>\<open>last.time - timedelta(seconds=duration / 3)\<close>\<close>
  "selection_right lst_point duration = time lst_point - timedelta_seconds (duration / 3)"

definition query :: "session \<Rightarrow> log_record list \<times> (error + unit)" where
  \<comment> \<open>the messages logged, then \<open>Inr ()\<close> for a normal return or the exception raised;
      \<open>last.time\<close> on \<open>None\<close> raises AttributeError\<close>
  "query s =
     (let fst_point = first (query_Point s);
          lst_point = first (order_by_time_desc (query_Point s));
          log1 = [FirstLast fst_point lst_point]
      in case lst_point of
           None \<Rightarrow> (log1, Inl AttributeError)
         | Some l \<Rightarrow>
            (case fst_point of
               None \<Rightarrow> (log1, Inl AttributeError)
             | Some f \<Rightarrow>
                 (let duration = total_seconds (time l - time f);
                      log2 = [TotalDuration duration, TotalNumber (count (query_Point s))];
                      selection =
                        filter_between (selection_left f duration) (selection_right l duration)
                          (query_Point s)
                  in (log1 @ log2 @ [NumberSelected (count selection),
                                     FirstSelected (first selection)],
                      Inr ()))))"

text \<open>
  The two subcommands: each opens a fresh session on the file named on the command line.
  The file is represented by the rows of its table.
\<close>

definition exec_generate :: "row list \<Rightarrow> datetime \<Rightarrow> int \<Rightarrow> row list" where
  \<comment> \<open>the table after \<open>generate --number-of-points n\<close>, run when the clock reads
      \<open>start_time\<close>\<close>
  "exec_generate rows start_time number_of_points =
     table (generate (init rows) start_time number_of_points)"

definition exec_query :: "row list \<Rightarrow> log_record list \<times> (error + unit)" where
  "exec_query rows = query (init rows)"

section \<open>The reference of the specification\<close>


section \<open>Facts about the encoding of times\<close>

lemma process_bind_param_eq:
  "process_bind_param v = (if 0 \<le> v then v div 1000000 else - ((- v) div 1000000))"
proof (cases "0 \<le> v")
  case True
  have "\<lfloor>(of_int v :: rat) / 1000000\<rfloor> = v div 1000000"
    using floor_divide_of_int_eq [of v 1000000, where ?'a = rat] by simp
  with True show ?thesis
    by (simp add: process_bind_param_def py_int_def timestamp_def)
next
  case False
  have "\<lfloor>(of_int (- v) :: rat) / 1000000\<rfloor> = (- v) div 1000000"
    using floor_divide_of_int_eq [of "- v" 1000000, where ?'a = rat] by simp
  then have "\<lceil>(of_int v :: rat) / 1000000\<rceil> = - ((- v) div 1000000)"
    by (simp add: ceiling_def)
  with False show ?thesis
    by (simp add: process_bind_param_def py_int_def timestamp_def)
qed


lemma process_bind_param_whole: "process_bind_param (k * 1000000) = k"
proof -
  have "(- k * 1000000) div 1000000 = - k"
    by (rule nonzero_mult_div_cancel_right) simp
  then show ?thesis
    by (simp add: process_bind_param_eq)
qed





lemma round_half_even_of_int: "round_half_even (of_int k) = k"
  by (simp add: round_half_even_def)

lemma timedelta_seconds_of_int: "timedelta_seconds (of_int t) = t * 1000000"
proof -
  have "(of_int t :: rat) * 1000000 = of_int (t * 1000000)" by simp
  then show ?thesis
    unfolding timedelta_seconds_def by (simp only: round_half_even_of_int)
qed

section \<open>Facts about the flush\<close>






lemma table_commit_add_all:
  "table (commit (add_all ps (init rows))) = fold insert_row ps rows"
  by (simp add: commit_def add_all_def init_def)

lemma exec_generate_eq:
  "exec_generate rows start_time n =
     fold insert_row
       (map (\<lambda>t. \<lparr>point_id = None, time = start_time + t * 1000000, temperature = 41 / 2\<rparr>)
          [0..n - 1]) rows"
  by (simp add: exec_generate_def generate_def table_commit_add_all py_range_def
      timedelta_seconds_of_int)

section \<open>Facts about the generator\<close>





section \<open>Facts about the queries\<close>

lemma process_result_value_le_iff [simp]:
  "process_result_value a \<le> process_result_value b \<longleftrightarrow> a \<le> b"
  by (simp add: process_result_value_def fromtimestamp_def)





lemma first_order_by_time_desc_None:
  "first (order_by_time_desc rows) = None \<longleftrightarrow> rows = []"
proof -
  have "sort_key (\<lambda>r. - row_time r) rows = [] \<longleftrightarrow> rows = []"
    using length_sort [of "\<lambda>r. - row_time r" rows] by (metis length_0_conv)
  then show ?thesis
    by (cases "sort_key (\<lambda>r. - row_time r) rows")
      (simp_all add: first_def order_by_time_desc_def)
qed

lemma first_order_by_time_desc_Some:
  assumes "first (order_by_time_desc rows) = Some p"
  shows "\<exists>r \<in> set rows. p = load r \<and> (\<forall>q \<in> set rows. row_time q \<le> row_time r)"
proof -
  from assms obtain r rs where sorted_rows: "sort_key (\<lambda>r. - row_time r) rows = r # rs"
    and p: "p = load r"
    by (auto simp: first_def order_by_time_desc_def split: list.splits)
  have "set (r # rs) = set rows"
    using set_sort [of "\<lambda>r. - row_time r" rows] by (simp only: sorted_rows)
  moreover have "sorted (map (\<lambda>r. - row_time r) (r # rs))"
    using sorted_sort_key [of "\<lambda>r. - row_time r" rows] by (simp only: sorted_rows)
  then have "\<forall>q \<in> set (r # rs). row_time q \<le> row_time r"
    by auto
  ultimately show ?thesis using p by auto
qed

lemma query_first_log:
  "hd (fst (query s)) =
     FirstLast (first (query_Point s)) (first (order_by_time_desc (query_Point s)))"
  by (simp add: query_def Let_def split: option.splits)

lemma exec_query_single:
  "exec_query [r] =
     ([FirstLast (Some (load r)) (Some (load r)), TotalDuration 0, TotalNumber 1,
       NumberSelected 1, FirstSelected (Some (load r))], Inr ())"
proof -
  have bound: "process_bind_param (process_result_value (row_time r)) = row_time r"
    by (simp add: process_result_value_def fromtimestamp_def process_bind_param_whole)
  have zero: "timedelta_seconds 0 = 0"
    by (simp add: timedelta_seconds_def round_half_even_def)
  show ?thesis
    by (simp add: exec_query_def query_def init_def query_Point_def first_def
        order_by_time_desc_def total_seconds_def selection_left_def selection_right_def
        zero filter_between_def count_def load_def bound Let_def)
qed


section \<open>The claims\<close>

subsection \<open>The first record\<close>

text \<open>
  Claim C1 says that the first record the query runner fetches is the record of minimum
  time. The runner fetches the last record with an ORDER BY on the time, but the first
  record with no ORDER BY at all: it gets the row of least rowid. The theorem evaluates
  the program where the two differ: the generator runs once when the clock reads
  1700000100 s and once more after the clock was set back to 1700000050 s. The first
  record fetched is the one of time 1700000100 s, although the table holds a record of
  time 1700000050 s, and the duration logged is 0 instead of 50 seconds.
\<close>

theorem first_is_not_minimum:
  "exec_generate (exec_generate [] 1700000100000000 1) 1700000050000000 1 =
     [\<lparr>row_id = 1, row_time = 1700000100, row_temperature = 41 / 2\<rparr>,
      \<lparr>row_id = 2, row_time = 1700000050, row_temperature = 41 / 2\<rparr>]
   \<and> first (query_Point (init
        (exec_generate (exec_generate [] 1700000100000000 1) 1700000050000000 1))) =
       Some \<lparr>point_id = Some 1, time = 1700000100000000, temperature = 41 / 2\<rparr>
   \<and> \<lparr>point_id = Some 2, time = 1700000050000000, temperature = 41 / 2\<rparr>
       \<in> set (map load
            (exec_generate (exec_generate [] 1700000100000000 1) 1700000050000000 1))
   \<and> time \<lparr>point_id = Some 2, time = 1700000050000000, temperature = 41 / 2\<rparr>
       < time \<lparr>point_id = Some 1, time = 1700000100000000, temperature = 41 / 2\<rparr>
   \<and> exec_query (exec_generate (exec_generate [] 1700000100000000 1) 1700000050000000 1) =
       ([FirstLast
          (Some \<lparr>point_id = Some 1, time = 1700000100000000, temperature = 41 / 2\<rparr>)
          (Some \<lparr>point_id = Some 1, time = 1700000100000000, temperature = 41 / 2\<rparr>),
         TotalDuration 0, TotalNumber 2, NumberSelected 1,
         FirstSelected
          (Some \<lparr>point_id = Some 1, time = 1700000100000000, temperature = 41 / 2\<rparr>)],
        Inr ())"
proof -
  have rows: "exec_generate (exec_generate [] 1700000100000000 1) 1700000050000000 1 =
     [\<lparr>row_id = 1, row_time = 1700000100, row_temperature = 41 / 2\<rparr>,
      \<lparr>row_id = 2, row_time = 1700000050, row_temperature = 41 / 2\<rparr>]"
    by (simp add: exec_generate_eq insert_row_def next_rowid_def process_bind_param_eq)
  show ?thesis
    unfolding rows
    by (simp add: exec_query_def query_def init_def query_Point_def first_def
        order_by_time_desc_def load_def process_result_value_def fromtimestamp_def
        total_seconds_def selection_left_def selection_right_def timedelta_seconds_def
        round_half_even_def filter_between_def process_bind_param_eq count_def Let_def)
qed

subsection \<open>The range selection\<close>




subsection \<open>The query runner on ten generated points\<close>



subsection \<open>The generator\<close>





subsection \<open>Reading back what was inserted\<close>



subsection \<open>The last record\<close>

text \<open>
  Claim C7. The last record that the query runner fetches and logs is absent exactly
  when the table has no row; otherwise it is a record of the table whose time is
  greatest. On a table of one row the first and the last record fetched are that one
  record, and the runner logs a duration of exactly 0.
\<close>

theorem query_last_is_maximum:
  assumes "hd (fst (exec_query rows)) = FirstLast fst_point lst_point"
  shows "(lst_point = None \<longleftrightarrow> rows = [])
       \<and> (\<forall>p. lst_point = Some p \<longrightarrow>
             p \<in> set (map load rows) \<and> (\<forall>q \<in> set (map load rows). time q \<le> time p))
       \<and> (\<forall>r. rows = [r] \<longrightarrow>
             fst_point = Some (load r) \<and> lst_point = Some (load r)
           \<and> exec_query rows =
               ([FirstLast (Some (load r)) (Some (load r)), TotalDuration 0, TotalNumber 1,
                 NumberSelected 1, FirstSelected (Some (load r))], Inr ()))"
proof -
  from assms have fst_point: "fst_point = first rows"
    and lst_point: "lst_point = first (order_by_time_desc rows)"
    by (simp_all add: exec_query_def query_first_log query_Point_def init_def)
  have absent: "lst_point = None \<longleftrightarrow> rows = []"
    unfolding lst_point by (rule first_order_by_time_desc_None)
  have maximum: "p \<in> set (map load rows) \<and> (\<forall>q \<in> set (map load rows). time q \<le> time p)"
    if "lst_point = Some p" for p
  proof -
    from that obtain r where "r \<in> set rows" and "p = load r"
      and "\<forall>q \<in> set rows. row_time q \<le> row_time r"
      unfolding lst_point by (blast dest: first_order_by_time_desc_Some)
    then show ?thesis by (auto simp: load_def)
  qed
  have single: "fst_point = Some (load r) \<and> lst_point = Some (load r)
      \<and> exec_query rows =
          ([FirstLast (Some (load r)) (Some (load r)), TotalDuration 0, TotalNumber 1,
            NumberSelected 1, FirstSelected (Some (load r))], Inr ())"
    if "rows = [r]" for r
    using assms unfolding that exec_query_single by auto
  from absent maximum single show ?thesis by blast
qed

theorem query_last_is_maximum_witness:
  "hd (fst (exec_query (exec_generate (exec_generate [] 100000000 1) 50000000 2))) =
     FirstLast (Some \<lparr>point_id = Some 1, time = 100000000, temperature = 41 / 2\<rparr>)
               (Some \<lparr>point_id = Some 1, time = 100000000, temperature = 41 / 2\<rparr>)
   \<and> \<lparr>point_id = Some 1, time = 100000000, temperature = 41 / 2\<rparr>
       \<in> set (map load (exec_generate (exec_generate [] 100000000 1) 50000000 2))
   \<and> time \<lparr>point_id = Some 3, time = 51000000, temperature = 41 / 2\<rparr>
       \<le> time \<lparr>point_id = Some 1, time = 100000000, temperature = 41 / 2\<rparr>"
proof -
  let ?rows = "exec_generate (exec_generate [] 100000000 1) 50000000 2"
  let ?p = "\<lparr>point_id = Some 1, time = 100000000, temperature = 41 / 2\<rparr>"
  let ?q = "\<lparr>point_id = Some 3, time = 51000000, temperature = 41 / 2\<rparr>"
  have rows: "?rows =
     [\<lparr>row_id = 1, row_time = 100, row_temperature = 41 / 2\<rparr>,
      \<lparr>row_id = 2, row_time = 50, row_temperature = 41 / 2\<rparr>,
      \<lparr>row_id = 3, row_time = 51, row_temperature = 41 / 2\<rparr>]"
    by (simp add: exec_generate_eq insert_row_def next_rowid_def process_bind_param_eq upto_rec1)
  have log: "hd (fst (exec_query ?rows)) = FirstLast (Some ?p) (Some ?p)"
    unfolding rows
    by (simp add: exec_query_def query_first_log init_def query_Point_def first_def
        order_by_time_desc_def load_def process_result_value_def fromtimestamp_def)
  have q: "?q \<in> set (map load ?rows)"
    unfolding rows by (simp add: load_def process_result_value_def fromtimestamp_def)
  from query_last_is_maximum [OF log]
  have "?p \<in> set (map load ?rows) \<and> (\<forall>q \<in> set (map load ?rows). time q \<le> time ?p)"
    by blast
  with q log show ?thesis by blast
qed

subsection \<open>Bounds in reverse order\<close>




subsection \<open>The query runner on an empty store\<close>

text \<open>
  Claim C9. On a store with no record the query runner logs the absent first and last
  record and then raises on \<open>last.time\<close>: it logs no duration, no count and no selection,
  and does not return normally.
\<close>

theorem query_empty_store_raises:
  "exec_query [] = ([FirstLast None None], Inl AttributeError)"
  by (simp add: exec_query_def query_def init_def query_Point_def first_def
      order_by_time_desc_def)

subsection \<open>The encoding drops the sub-second part\<close>



end
